theory Spec2Isabelle
  imports
    Main
    "HOL-Library.Word"
    "HOL-Library.AList"
    "HOL-Library.Char_ord"
    "HOL-Library.List_Lexorder"
begin

unbundle bit_operations_syntax

section \<open>Common conventions\<close>

text \<open>
  Go values are modelled as follows.
  \<^item> \<open>byte\<close> is an 8-bit word, \<open>[]byte\<close> a list of them; a nil slice that the code
    tests against \<open>nil\<close> is an \<open>option\<close>.
  \<^item> \<open>int\<close> and \<open>int64\<close> are mathematical integers: every quantity below is a length,
    an offset or an index far below \<open>2^63\<close>, so no operation wraps. Go's \<open>/\<close> and
    \<open>%\<close> truncate towards zero (\<open>go_quot\<close>, \<open>go_rem\<close>).
  \<^item> A Go \<open>map\<close> is an association list with distinct keys, written with
    \<open>AList.update\<close> and \<open>AList.delete\<close>; no modelled function depends on the iteration
    order.
  \<^item> A function that returns an \<open>error\<close> returns \<open>error option\<close> (or a sum) next to
    the updated state; a run-time panic (index out of range, division by zero, negative
    \<open>make\<close>) is the outcome \<open>Panics\<close>.
  \<^item> \<open>time.Time\<close> is a number of nanoseconds; \<open>time.Now()\<close> is a parameter.
  \<^item> Mutexes are not modelled: every method body runs atomically.
\<close>

type_synonym byte = "8 word"
type_synonym time = int

datatype 'a exec = Ret 'a | Panics

datatype error =
    BlockLengthMismatch int int
  | BlockNotFound int
  | PieceNotComplete int
  | PieceNotFound int
  | PieceIndexOutOfRange int
  | PieceNotVerified int
  | InvalidPieceIndex int
  | DiskManagerNotSet
  | NoSelectionStrategy
  | NoPieceSelected
  | FileNotOpen string
  | NegativeOffset
  | BlockBeginOutOfRange int int
  | PeerIsChokingUs
  | PeerConnectionClosed
  | SendChannelFull
  | NotAHaveMessage
  | InvalidHavePayloadLength nat
  | NotABitfieldMessage
  | InvalidBencode
  | UnexpectedEnd
  | CannotDecode
  | CannotEncodeNil
  | MissingInfoDictionary
  | InvalidPieceLength
  | PiecesNotMultipleOf20
  | TorrentNameEmpty
  | InvalidFileLength
  | FileHasInvalidLength nat
  | FileHasEmptyPath nat

definition go_quot :: "int \<Rightarrow> int \<Rightarrow> int" where
  "go_quot a b = sgn a * sgn b * (\<bar>a\<bar> div \<bar>b\<bar>)"

definition go_rem :: "int \<Rightarrow> int \<Rightarrow> int" where
  "go_rem a b = sgn a * (\<bar>a\<bar> mod \<bar>b\<bar>)"

section \<open>SHA-1 (\<open>crypto/sha1\<close>)\<close>

text \<open>
  The standard library's \<open>sha1.Sum\<close>, written out after FIPS 180-4 so that concrete runs
  can be evaluated. 32-bit words are integers with the reduction modulo \<open>2^32\<close> written out.
\<close>

definition add32 :: "int \<Rightarrow> int \<Rightarrow> int" where
  "add32 x y = (x + y) mod 4294967296"

definition rotl32 :: "nat \<Rightarrow> int \<Rightarrow> int" where
  "rotl32 n x = ((x * 2 ^ n) mod 4294967296) OR (x div 2 ^ (32 - n))"

definition not32 :: "int \<Rightarrow> int" where
  "not32 x = 4294967295 - x"

definition be32 :: "int list \<Rightarrow> int" where
  "be32 bs = foldl (\<lambda>acc b. acc * 256 + b) 0 bs"

definition put32 :: "int \<Rightarrow> int list" where
  "put32 w = [w div 16777216 mod 256, w div 65536 mod 256, w div 256 mod 256, w mod 256]"

definition put64 :: "int \<Rightarrow> int list" where
  "put64 w = put32 (w div 4294967296 mod 4294967296) @ put32 (w mod 4294967296)"

definition sha1_pad :: "int list \<Rightarrow> int list" where
  "sha1_pad m =
     (let l = length m; k = (119 - l mod 64) mod 64
      in m @ [128] @ replicate k 0 @ put64 (8 * int l))"

fun chunks :: "nat \<Rightarrow> 'a list \<Rightarrow> 'a list list" where
  "chunks n [] = []"
| "chunks n (x # xs) =
     (if n = 0 then [] else take n (x # xs) # chunks n (drop n (x # xs)))"

fun sha1_expand :: "nat \<Rightarrow> int list \<Rightarrow> int list" where
  "sha1_expand 0 ws = ws"
| "sha1_expand (Suc k) ws =
     sha1_expand k (rotl32 1 (ws ! 2 XOR ws ! 7 XOR ws ! 13 XOR ws ! 15) # ws)"

definition sha1_f :: "nat \<Rightarrow> int \<Rightarrow> int \<Rightarrow> int \<Rightarrow> int" where
  "sha1_f t b c d =
     (if t < 20 then (b AND c) OR (not32 b AND d)
      else if t < 40 then b XOR c XOR d
      else if t < 60 then (b AND c) OR (b AND d) OR (c AND d)
      else b XOR c XOR d)"

definition sha1_k :: "nat \<Rightarrow> int" where
  "sha1_k t =
     (if t < 20 then 0x5A827999 else if t < 40 then 0x6ED9EBA1
      else if t < 60 then 0x8F1BBCDC else 0xCA62C1D6)"

fun sha1_rounds ::
  "nat \<Rightarrow> int list \<Rightarrow> int \<times> int \<times> int \<times> int \<times> int \<Rightarrow> int \<times> int \<times> int \<times> int \<times> int" where
  "sha1_rounds t [] s = s"
| "sha1_rounds t (w # ws) (a, b, c, d, e) =
     sha1_rounds (t + 1) ws
       (add32 (add32 (add32 (add32 (rotl32 5 a) (sha1_f t b c d)) e) (sha1_k t)) w,
        a, rotl32 30 b, c, d)"

definition sha1_block ::
  "int \<times> int \<times> int \<times> int \<times> int \<Rightarrow> int list \<Rightarrow> int \<times> int \<times> int \<times> int \<times> int" where
  "sha1_block h blk =
     (case h of (h0, h1, h2, h3, h4) \<Rightarrow>
        (case sha1_rounds 0 (rev (sha1_expand 64 (rev (map be32 (chunks 4 blk))))) h of
           (a, b, c, d, e) \<Rightarrow> (add32 h0 a, add32 h1 b, add32 h2 c, add32 h3 d, add32 h4 e)))"

definition sha1_Sum :: "byte list \<Rightarrow> byte list" where
  "sha1_Sum m =
     (case foldl sha1_block (0x67452301, 0xEFCDAB89, 0x98BADCFE, 0x10325476, 0xC3D2E1F0)
             (chunks 64 (sha1_pad (map uint m))) of
        (a, b, c, d, e) \<Rightarrow> map word_of_int (put32 a @ put32 b @ put32 c @ put32 d @ put32 e))"

section \<open>Pieces and blocks (\<open>internal/piece/manager.go\<close>)\<close>

definition BlockSize :: int where
  "BlockSize = 16384"

datatype PieceState =
  PieceStateMissing | PieceStateRequested | PieceStateDownloaded | PieceStateVerified

record Block =
  Block_Index :: int
  Block_Begin :: int
  Block_Length :: int
  Block_Data :: "byte list option"
  Block_RequestedAt :: "time option"

record Request =
  Request_Block :: Block
  Request_PeerID :: string
  Request_Timestamp :: time

record Piece =
  Piece_Index :: int
  Piece_Length :: int
  Piece_Hash :: "byte list"
  Piece_State :: PieceState
  Piece_Blocks :: "Block list"
  Piece_Requests :: "(string \<times> Request) list"

text \<open>The body of the loop of \<open>NewPiece\<close> for block \<open>i\<close>.\<close>

definition NewPiece_block :: "int \<Rightarrow> int \<Rightarrow> int \<Rightarrow> int \<Rightarrow> Block" where
  "NewPiece_block index len numBlocks i =
     (let blockLength =
        (if i = numBlocks - 1 \<and> len - i * BlockSize < BlockSize
         then len - i * BlockSize else BlockSize)
      in \<lparr>Block_Index = index, Block_Begin = i * BlockSize, Block_Length = blockLength,
          Block_Data = None, Block_RequestedAt = None\<rparr>)"

definition NewPiece :: "int \<Rightarrow> int \<Rightarrow> byte list \<Rightarrow> Piece exec" where
  "NewPiece index len hash =
     (let numBlocks = go_quot (len + BlockSize - 1) BlockSize
      in if numBlocks < 0 then Panics
         else Ret \<lparr>Piece_Index = index, Piece_Length = len, Piece_Hash = hash,
                   Piece_State = PieceStateMissing,
                   Piece_Blocks =
                     map (\<lambda>i. NewPiece_block index len numBlocks (int i)) [0..<nat numBlocks],
                   Piece_Requests = []\<rparr>)"

definition Piece_IsComplete :: "Piece \<Rightarrow> bool" where
  "Piece_IsComplete p = list_all (\<lambda>b. Block_Data b \<noteq> None) (Piece_Blocks p)"

definition GetMissingBlocks :: "Piece \<Rightarrow> Block list" where
  "GetMissingBlocks p = filter (\<lambda>b. Block_Data b = None) (Piece_Blocks p)"

text \<open>
  \<open>SetBlockData\<close>: the loop stops at the first block whose \<open>Begin\<close> equals \<open>begin\<close>;
  it rejects a payload of the wrong length and otherwise stores a copy of the payload,
  whatever the slot held before.
\<close>

fun SetBlockData_loop :: "Block list \<Rightarrow> int \<Rightarrow> byte list \<Rightarrow> error + Block list" where
  "SetBlockData_loop [] begin data = Inl (BlockNotFound begin)"
| "SetBlockData_loop (b # bs) begin data =
     (if Block_Begin b = begin then
        (if int (length data) \<noteq> Block_Length b
         then Inl (BlockLengthMismatch (int (length data)) (Block_Length b))
         else Inr (b\<lparr>Block_Data := Some data\<rparr> # bs))
      else (case SetBlockData_loop bs begin data of
              Inl e \<Rightarrow> Inl e
            | Inr bs' \<Rightarrow> Inr (b # bs')))"

definition SetBlockData :: "Piece \<Rightarrow> int \<Rightarrow> byte list \<Rightarrow> error option \<times> Piece" where
  "SetBlockData p begin data =
     (case SetBlockData_loop (Piece_Blocks p) begin data of
        Inl e \<Rightarrow> (Some e, p)
      | Inr bs \<Rightarrow>
          (None, p\<lparr>Piece_Blocks := bs,
                   Piece_Requests :=
                     filter (\<lambda>(key, req). Block_Begin (Request_Block req) \<noteq> begin)
                       (Piece_Requests p)\<rparr>))"

definition block_bytes :: "Block \<Rightarrow> byte list" where
  "block_bytes b = (case Block_Data b of None \<Rightarrow> [] | Some d \<Rightarrow> d)"

definition GetData :: "Piece \<Rightarrow> error + byte list" where
  "GetData p =
     (if \<not> Piece_IsComplete p then Inl (PieceNotComplete (Piece_Index p))
      else Inr (concat (map block_bytes (Piece_Blocks p))))"

text \<open>The payload stored for the block at offset \<open>begin\<close>, if the block exists and holds one.\<close>

fun stored_payload :: "Block list \<Rightarrow> int \<Rightarrow> byte list option" where
  "stored_payload [] begin = None"
| "stored_payload (b # bs) begin =
     (if Block_Begin b = begin then Block_Data b else stored_payload bs begin)"

section \<open>Piece selection (\<open>internal/piece/strategy.go\<close>)\<close>

text \<open>
  \<open>peerHasPiece\<close> is only called with the index of a \<open>range\<close> loop over the pieces,
  which is never negative; the index is a natural number here. Bit \<open>i\<close> lives in byte
  \<open>i / 8\<close> under the mask \<open>1 << (7 - i % 8)\<close>.
\<close>

definition peerHasPiece :: "byte list \<Rightarrow> nat \<Rightarrow> bool" where
  "peerHasPiece bf pieceIndex =
     (if length bf = 0 then False
      else (let byteIndex = pieceIndex div 8; bitIndex = pieceIndex mod 8
            in if byteIndex \<ge> length bf then False
               else (bf ! byteIndex) AND push_bit (7 - bitIndex) 1 \<noteq> 0))"

text \<open>
  A strategy returns a pointer into the slice of pieces or \<open>nil\<close>; the model returns the
  position of the piece in the slice. The loops carry the index \<open>i\<close> of the \<open>range\<close> loop.
\<close>

fun Sequential_loop :: "Piece list \<Rightarrow> byte list \<Rightarrow> nat \<Rightarrow> nat option" where
  "Sequential_loop [] bf i = None"
| "Sequential_loop (piece # rest) bf i =
     (if Piece_State piece = PieceStateVerified then Sequential_loop rest bf (i + 1)
      else if \<not> peerHasPiece bf i then Sequential_loop rest bf (i + 1)
      else Some i)"

definition Sequential_SelectPiece :: "Piece list \<Rightarrow> byte list \<Rightarrow> nat option" where
  "Sequential_SelectPiece pieces bf = Sequential_loop pieces bf 0"

record pieceRarity =
  pr_index :: nat
  pr_rarity :: nat

fun RarestFirst_candidates ::
  "(string \<times> byte list) list \<Rightarrow> Piece list \<Rightarrow> byte list \<Rightarrow> nat \<Rightarrow> pieceRarity list" where
  "RarestFirst_candidates peerBitfields [] bf i = []"
| "RarestFirst_candidates peerBitfields (piece # rest) bf i =
     (if Piece_State piece = PieceStateVerified then RarestFirst_candidates peerBitfields rest bf (i + 1)
      else if \<not> peerHasPiece bf i then RarestFirst_candidates peerBitfields rest bf (i + 1)
      else \<lparr>pr_index = i,
             pr_rarity = length (filter (\<lambda>(peerID, otherBitfield). peerHasPiece otherBitfield i)
                                   peerBitfields)\<rparr>
           # RarestFirst_candidates peerBitfields rest bf (i + 1))"

text \<open>
  \<open>sort.Slice\<close> belongs to the standard library and is not stable; it is the parameter
  \<open>srt\<close> (comparison first, slice second). The selected piece is the head of the sorted
  candidates.
\<close>

type_synonym sort_Slice = "(pieceRarity \<Rightarrow> pieceRarity \<Rightarrow> bool) \<Rightarrow> pieceRarity list \<Rightarrow> pieceRarity list"

definition RarestFirst_SelectPiece ::
  "sort_Slice \<Rightarrow> (string \<times> byte list) list \<Rightarrow> Piece list \<Rightarrow> byte list \<Rightarrow> nat option" where
  "RarestFirst_SelectPiece srt peerBitfields pieces bf =
     (let candidates = RarestFirst_candidates peerBitfields pieces bf 0
      in if length candidates = 0 then None
         else (case srt (\<lambda>x y. pr_rarity x < pr_rarity y) candidates of
                 [] \<Rightarrow> None
               | c # cs \<Rightarrow> Some (pr_index c)))"

text \<open>
  For slices of at most twelve elements \<open>sort.Slice\<close> runs an insertion sort: element
  \<open>x\<close> moves left while it is less than its left neighbour. The sorted prefix is kept
  reversed in \<open>ins_back\<close>.
\<close>

fun ins_back :: "('a \<Rightarrow> 'a \<Rightarrow> bool) \<Rightarrow> 'a \<Rightarrow> 'a list \<Rightarrow> 'a list" where
  "ins_back lt x [] = [x]"
| "ins_back lt x (y # ys) = (if lt x y then y # ins_back lt x ys else x # y # ys)"

definition insertionSort :: "('a \<Rightarrow> 'a \<Rightarrow> bool) \<Rightarrow> 'a list \<Rightarrow> 'a list" where
  "insertionSort lt xs = rev (foldl (\<lambda>acc x. ins_back lt x acc) [] xs)"

fun EndGame_loop :: "Piece list \<Rightarrow> byte list \<Rightarrow> nat \<Rightarrow> nat option" where
  "EndGame_loop [] bf i = None"
| "EndGame_loop (piece # rest) bf i =
     (if Piece_State piece \<noteq> PieceStateVerified \<and> peerHasPiece bf i then Some i
      else EndGame_loop rest bf (i + 1))"

definition count_not_verified :: "Piece list \<Rightarrow> int" where
  "count_not_verified pieces = int (length (filter (\<lambda>p. Piece_State p \<noteq> PieceStateVerified) pieces))"

definition count_verified :: "Piece list \<Rightarrow> int" where
  "count_verified pieces = int (length (filter (\<lambda>p. Piece_State p = PieceStateVerified) pieces))"

text \<open>\<open>EndGameStrategy.SelectPiece\<close>; \<open>base\<close> is \<open>baseStrategy.SelectPiece\<close>.\<close>

definition EndGame_SelectPiece ::
  "int \<Rightarrow> (Piece list \<Rightarrow> byte list \<Rightarrow> nat option) \<Rightarrow> Piece list \<Rightarrow> byte list \<Rightarrow> nat option" where
  "EndGame_SelectPiece threshold base pieces bf =
     (let missing = count_not_verified pieces
      in if missing \<le> threshold then EndGame_loop pieces bf 0
         else base pieces bf)"

text \<open>
  \<open>SmartStrategy\<close>. Its \<open>rarestFirst\<close> and the base strategy of its \<open>endGame\<close> are the same
  object, so the record holds the peer bitfields once, next to the threshold of the
  \<open>endGame\<close> object. The \<open>random\<close> field is never used by \<open>SelectPiece\<close>.
\<close>

record SmartStrategy =
  smart_rarestFirst :: "(string \<times> byte list) list"
  smart_endGame_threshold :: int
  smart_sequentialThreshold :: int
  smart_endGameThreshold :: int

definition NewSmartStrategy :: SmartStrategy where
  "NewSmartStrategy =
     \<lparr>smart_rarestFirst = [], smart_endGame_threshold = 5,
      smart_sequentialThreshold = 4, smart_endGameThreshold = 10\<rparr>"

definition Smart_UpdatePeerBitfield :: "SmartStrategy \<Rightarrow> string \<Rightarrow> byte list \<Rightarrow> SmartStrategy" where
  "Smart_UpdatePeerBitfield s peerID bf =
     s\<lparr>smart_rarestFirst := AList.update peerID bf (smart_rarestFirst s)\<rparr>"

definition Smart_SelectPiece ::
  "sort_Slice \<Rightarrow> SmartStrategy \<Rightarrow> Piece list \<Rightarrow> byte list \<Rightarrow> nat option" where
  "Smart_SelectPiece srt s pieces bf =
     (let completed = count_verified pieces;
          total = int (length pieces);
          remaining = total - completed;
          viaSequential =
            (if completed < smart_sequentialThreshold s then Sequential_SelectPiece pieces bf
             else None)
      in case viaSequential of
           Some piece \<Rightarrow> Some piece
         | None \<Rightarrow>
             if remaining \<le> smart_endGameThreshold s
             then EndGame_SelectPiece (smart_endGame_threshold s)
                    (RarestFirst_SelectPiece srt (smart_rarestFirst s)) pieces bf
             else RarestFirst_SelectPiece srt (smart_rarestFirst s) pieces bf)"

datatype SelectionStrategy =
    SequentialStrategy
  | RarestFirstStrategy "(string \<times> byte list) list"
  | EndGameStrategy int SelectionStrategy
  | SmartStrategy' SmartStrategy

fun SelectPiece :: "sort_Slice \<Rightarrow> SelectionStrategy \<Rightarrow> Piece list \<Rightarrow> byte list \<Rightarrow> nat option" where
  "SelectPiece srt SequentialStrategy pieces bf = Sequential_SelectPiece pieces bf"
| "SelectPiece srt (RarestFirstStrategy peerBitfields) pieces bf =
     RarestFirst_SelectPiece srt peerBitfields pieces bf"
| "SelectPiece srt (EndGameStrategy threshold base) pieces bf =
     EndGame_SelectPiece threshold (SelectPiece srt base) pieces bf"
| "SelectPiece srt (SmartStrategy' s) pieces bf = Smart_SelectPiece srt s pieces bf"

section \<open>Metainfo (\<open>internal/torrent/torrent.go\<close>)\<close>

record File =
  File_Length :: int
  File_Path :: "string list"

record Info =
  Info_PieceLength :: int
  Info_Pieces :: "byte list"
  Info_Name :: string
  Info_Length :: int
  Info_Files :: "File list"

record Torrent =
  Torrent_Announce :: string
  Torrent_AnnounceList :: "string list list"
  Torrent_CreatedBy :: string
  Torrent_CreationDate :: int
  Torrent_Comment :: string
  Torrent_InfoHash :: "byte list"
  Torrent_Info :: Info

definition IsSingleFile :: "Torrent \<Rightarrow> bool" where
  "IsSingleFile t = (length (Info_Files (Torrent_Info t)) = 0)"

definition TotalLength :: "Torrent \<Rightarrow> int" where
  "TotalLength t =
     (if IsSingleFile t then Info_Length (Torrent_Info t)
      else sum_list (map File_Length (Info_Files (Torrent_Info t))))"

definition NumPieces :: "Torrent \<Rightarrow> int" where
  "NumPieces t = int (length (Info_Pieces (Torrent_Info t)) div 20)"

definition PieceHash :: "Torrent \<Rightarrow> int \<Rightarrow> error + byte list" where
  "PieceHash t index =
     (if index < 0 \<or> index \<ge> NumPieces t then Inl (PieceIndexOutOfRange index)
      else Inr (take 20 (drop (nat index * 20) (Info_Pieces (Torrent_Info t)))))"

text \<open>\<open>PieceSize\<close>; the remainder panics when the piece length is zero.\<close>

definition PieceSize :: "Torrent \<Rightarrow> int \<Rightarrow> int exec" where
  "PieceSize t index =
     (if index < 0 \<or> index \<ge> NumPieces t then Ret 0
      else (let totalLength = TotalLength t; pieceLength = Info_PieceLength (Torrent_Info t)
            in if index < NumPieces t - 1 then Ret pieceLength
               else if pieceLength = 0 then Panics
               else (let lastPieceSize = go_rem totalLength pieceLength
                     in if lastPieceSize = 0 then Ret pieceLength else Ret lastPieceSize)))"

fun Validate_files :: "File list \<Rightarrow> nat \<Rightarrow> error option" where
  "Validate_files [] i = None"
| "Validate_files (file # rest) i =
     (if File_Length file < 0 then Some (FileHasInvalidLength i)
      else if length (File_Path file) = 0 then Some (FileHasEmptyPath i)
      else Validate_files rest (i + 1))"

definition Validate :: "Torrent \<Rightarrow> error option" where
  "Validate t =
     (let info = Torrent_Info t
      in if Info_PieceLength info \<le> 0 then Some InvalidPieceLength
         else if length (Info_Pieces info) mod 20 \<noteq> 0 then Some PiecesNotMultipleOf20
         else if Info_Name info = [] then Some TorrentNameEmpty
         else if length (Info_Files info) = 0 \<and> Info_Length info \<le> 0 then Some InvalidFileLength
         else if length (Info_Files info) > 0 then Validate_files (Info_Files info) 0
         else None)"

section \<open>Disk manager (\<open>package disk\<close>)\<close>

text \<open>
  \<open>files\<close> maps a path to an open file; the model keeps the content of the file under
  its path. \<open>filepath.Join\<close> is the parameter \<open>J\<close>. The operating system does not fail
  here: \<open>WriteAt\<close> and \<open>ReadAt\<close> only reject a negative offset, \<open>Sync\<close> succeeds.
  \<open>WriteAt\<close> extends the file with zeros up to the offset; \<open>ReadAt\<close> fills the front of
  the buffer with what the file holds from the offset on and reports \<open>io.EOF\<close> when that
  is less than the buffer, which both callers ignore.
\<close>

record disk_Manager =
  disk_torrent :: Torrent
  disk_downloadDir :: string
  disk_files :: "(string \<times> byte list) list"
  disk_totalSize :: int
  disk_pieceHashes :: "byte list list"

definition disk_NewManager :: "Torrent \<Rightarrow> string \<Rightarrow> disk_Manager" where
  "disk_NewManager t downloadDir =
     \<lparr>disk_torrent = t, disk_downloadDir = downloadDir, disk_files = [],
      disk_totalSize = TotalLength t,
      disk_pieceHashes =
        map (\<lambda>i. case PieceHash t (int i) of Inl e \<Rightarrow> replicate 20 0 | Inr h \<Rightarrow> h)
          [0..<nat (NumPieces t)]\<rparr>"

definition file_WriteAt :: "byte list \<Rightarrow> byte list \<Rightarrow> int \<Rightarrow> error + byte list" where
  "file_WriteAt content b off =
     (if off < 0 then Inl NegativeOffset
      else if b = [] then Inr content
      else (let padded = content @ replicate (nat off - length content) 0
            in Inr (take (nat off) padded @ b @ drop (nat off + length b) padded)))"

definition file_ReadAt :: "byte list \<Rightarrow> byte list \<Rightarrow> int \<Rightarrow> error + byte list" where
  "file_ReadAt content buf off =
     (if off < 0 then Inl NegativeOffset
      else (let got = take (length buf) (drop (nat off) content)
            in Inr (got @ drop (length got) buf)))"

definition fullPath :: "(string \<Rightarrow> string \<Rightarrow> string) \<Rightarrow> disk_Manager \<Rightarrow> File \<Rightarrow> string" where
  "fullPath J d fileInfo =
     foldl J (J (disk_downloadDir d) (Info_Name (Torrent_Info (disk_torrent d)))) (File_Path fileInfo)"

text \<open>
  \<open>Initialize\<close> in an empty download directory: every file is created and truncated to
  its declared size, which leaves it filled with zeros; a negative size is an error of
  \<open>Truncate\<close>.
\<close>

fun Initialize_files ::
  "(string \<Rightarrow> string \<Rightarrow> string) \<Rightarrow> disk_Manager \<Rightarrow> File list \<Rightarrow> error option \<times> disk_Manager" where
  "Initialize_files J d [] = (None, d)"
| "Initialize_files J d (fileInfo # rest) =
     (if File_Length fileInfo < 0 then (Some InvalidFileLength, d)
      else Initialize_files J
             (d\<lparr>disk_files := AList.update (fullPath J d fileInfo)
                    (replicate (nat (File_Length fileInfo)) 0) (disk_files d)\<rparr>) rest)"

definition Initialize ::
  "(string \<Rightarrow> string \<Rightarrow> string) \<Rightarrow> disk_Manager \<Rightarrow> error option \<times> disk_Manager" where
  "Initialize J d =
     (let t = disk_torrent d
      in if IsSingleFile t then
           (if Info_Length (Torrent_Info t) < 0 then (Some InvalidFileLength, d)
            else (None, d\<lparr>disk_files :=
                    AList.update (J (disk_downloadDir d) (Info_Name (Torrent_Info t)))
                      (replicate (nat (Info_Length (Torrent_Info t))) 0) (disk_files d)\<rparr>))
         else Initialize_files J d (Info_Files (Torrent_Info t)))"

text \<open>
  The loop of \<open>writeMultiFile\<close> over the manifest, with its two counters
  \<open>currentOffset\<close> and \<open>dataOffset\<close>. \<open>writeMultiFile_body\<close> is one pass through the
  loop body: it either goes on to the next file with the new state (\<open>Next\<close>, for
  \<open>continue\<close> and for the end of the body) or leaves the loop (\<open>Leave\<close>, for \<open>break\<close> and \<open>return\<close>). The manager is
  threaded through, so a failure in a later file keeps the writes to the earlier ones.
\<close>

datatype ('s, 'r) loop_step = Next 's | Leave 'r

definition writeMultiFile_body ::
  "(string \<Rightarrow> string \<Rightarrow> string) \<Rightarrow> disk_Manager \<Rightarrow> File \<Rightarrow> int \<Rightarrow> byte list \<Rightarrow> int \<Rightarrow> int
     \<Rightarrow> (disk_Manager \<times> int \<times> int, error option \<times> disk_Manager) loop_step" where
  "writeMultiFile_body J d fileInfo offset data currentOffset dataOffset =
     (let fileEnd = currentOffset + File_Length fileInfo
      in if offset \<ge> fileEnd then Next (d, fileEnd, dataOffset)
         else
           (let fileWriteStart = (if offset > currentOffset then offset - currentOffset else 0);
                remaining = int (length data) - dataOffset;
                bytesToWrite =
                  (if fileWriteStart + remaining > File_Length fileInfo
                   then File_Length fileInfo - fileWriteStart else remaining)
            in if bytesToWrite \<le> 0 then Leave (None, d)
               else
                 (case map_of (disk_files d) (fullPath J d fileInfo) of
                    None \<Rightarrow> Leave (Some (FileNotOpen (fullPath J d fileInfo)), d)
                  | Some content \<Rightarrow>
                      (case file_WriteAt content
                              (take (nat bytesToWrite) (drop (nat dataOffset) data)) fileWriteStart of
                         Inl e \<Rightarrow> Leave (Some e, d)
                       | Inr content' \<Rightarrow>
                           (let d' = d\<lparr>disk_files :=
                                        AList.update (fullPath J d fileInfo) content' (disk_files d)\<rparr>
                            in if dataOffset + bytesToWrite \<ge> int (length data) then Leave (None, d')
                               else Next (d', fileEnd, dataOffset + bytesToWrite))))))"

fun writeMultiFile_loop ::
  "(string \<Rightarrow> string \<Rightarrow> string) \<Rightarrow> disk_Manager \<Rightarrow> File list \<Rightarrow> int \<Rightarrow> byte list \<Rightarrow> int \<Rightarrow> int
     \<Rightarrow> error option \<times> disk_Manager" where
  "writeMultiFile_loop J d [] offset data currentOffset dataOffset = (None, d)"
| "writeMultiFile_loop J d (fileInfo # rest) offset data currentOffset dataOffset =
     (case writeMultiFile_body J d fileInfo offset data currentOffset dataOffset of
        Leave r \<Rightarrow> r
      | Next (d', currentOffset', dataOffset') \<Rightarrow>
          writeMultiFile_loop J d' rest offset data currentOffset' dataOffset')"

definition writeMultiFile ::
  "(string \<Rightarrow> string \<Rightarrow> string) \<Rightarrow> disk_Manager \<Rightarrow> int \<Rightarrow> byte list \<Rightarrow> error option \<times> disk_Manager" where
  "writeMultiFile J d offset data =
     writeMultiFile_loop J d (Info_Files (Torrent_Info (disk_torrent d))) offset data 0 0"

definition WritePiece ::
  "(string \<Rightarrow> string \<Rightarrow> string) \<Rightarrow> disk_Manager \<Rightarrow> int \<Rightarrow> byte list \<Rightarrow> error option \<times> disk_Manager" where
  "WritePiece J d pieceIndex data =
     (let pieceLength = Info_PieceLength (Torrent_Info (disk_torrent d));
          pieceOffset = pieceIndex * pieceLength
      in if IsSingleFile (disk_torrent d) then
           (let filePath = J (disk_downloadDir d) (Info_Name (Torrent_Info (disk_torrent d)))
            in case map_of (disk_files d) filePath of
                 None \<Rightarrow> (Some (FileNotOpen filePath), d)
               | Some content \<Rightarrow>
                   (case file_WriteAt content data pieceOffset of
                      Inl e \<Rightarrow> (Some e, d)
                    | Inr content' \<Rightarrow>
                        (None, d\<lparr>disk_files := AList.update filePath content' (disk_files d)\<rparr>)))
         else writeMultiFile J d pieceOffset data)"

text \<open>
  The loop of \<open>readMultiFile\<close>: \<open>data\<close> is the buffer being filled; each file's
  \<open>ReadAt\<close> writes into the sub-slice \<open>data[dataOffset : dataOffset+bytesToRead]\<close>.
\<close>

definition readMultiFile_body ::
  "(string \<Rightarrow> string \<Rightarrow> string) \<Rightarrow> disk_Manager \<Rightarrow> File \<Rightarrow> int \<Rightarrow> byte list \<Rightarrow> int \<Rightarrow> int
     \<Rightarrow> (byte list \<times> int \<times> int, error + byte list) loop_step" where
  "readMultiFile_body J d fileInfo offset data currentOffset dataOffset =
     (let fileEnd = currentOffset + File_Length fileInfo
      in if offset \<ge> fileEnd then Next (data, fileEnd, dataOffset)
         else
           (let fileReadStart = (if offset > currentOffset then offset - currentOffset else 0);
                remaining = int (length data) - dataOffset;
                bytesToRead =
                  (if fileReadStart + remaining > File_Length fileInfo
                   then File_Length fileInfo - fileReadStart else remaining)
            in if bytesToRead \<le> 0 then Leave (Inr data)
               else
                 (case map_of (disk_files d) (fullPath J d fileInfo) of
                    None \<Rightarrow> Leave (Inl (FileNotOpen (fullPath J d fileInfo)))
                  | Some content \<Rightarrow>
                      (case file_ReadAt content
                              (take (nat bytesToRead) (drop (nat dataOffset) data)) fileReadStart of
                         Inl e \<Rightarrow> Leave (Inl e)
                       | Inr readData \<Rightarrow>
                           (let data' = take (nat dataOffset) data @ readData
                                          @ drop (nat dataOffset + nat bytesToRead) data
                            in if dataOffset + bytesToRead \<ge> int (length data) then Leave (Inr data')
                               else Next (data', fileEnd, dataOffset + bytesToRead))))))"

fun readMultiFile_loop ::
  "(string \<Rightarrow> string \<Rightarrow> string) \<Rightarrow> disk_Manager \<Rightarrow> File list \<Rightarrow> int \<Rightarrow> byte list \<Rightarrow> int \<Rightarrow> int
     \<Rightarrow> error + byte list" where
  "readMultiFile_loop J d [] offset data currentOffset dataOffset = Inr data"
| "readMultiFile_loop J d (fileInfo # rest) offset data currentOffset dataOffset =
     (case readMultiFile_body J d fileInfo offset data currentOffset dataOffset of
        Leave r \<Rightarrow> r
      | Next (data', currentOffset', dataOffset') \<Rightarrow>
          readMultiFile_loop J d rest offset data' currentOffset' dataOffset')"

definition readMultiFile ::
  "(string \<Rightarrow> string \<Rightarrow> string) \<Rightarrow> disk_Manager \<Rightarrow> int \<Rightarrow> byte list \<Rightarrow> error + byte list" where
  "readMultiFile J d offset data =
     readMultiFile_loop J d (Info_Files (Torrent_Info (disk_torrent d))) offset data 0 0"

definition ReadPiece ::
  "(string \<Rightarrow> string \<Rightarrow> string) \<Rightarrow> disk_Manager \<Rightarrow> int \<Rightarrow> (error + byte list) exec" where
  "ReadPiece J d pieceIndex =
     (case PieceSize (disk_torrent d) pieceIndex of
        Panics \<Rightarrow> Panics
      | Ret actualLength \<Rightarrow>
          if actualLength < 0 then Panics
          else
            (let pieceOffset = pieceIndex * Info_PieceLength (Torrent_Info (disk_torrent d));
                 data = replicate (nat actualLength) 0
             in if IsSingleFile (disk_torrent d) then
                  (let filePath = J (disk_downloadDir d) (Info_Name (Torrent_Info (disk_torrent d)))
                   in case map_of (disk_files d) filePath of
                        None \<Rightarrow> Ret (Inl (FileNotOpen filePath))
                      | Some content \<Rightarrow> Ret (file_ReadAt content data pieceOffset))
                else Ret (readMultiFile J d pieceOffset data)))"

definition VerifyPiece :: "disk_Manager \<Rightarrow> int \<Rightarrow> byte list \<Rightarrow> bool" where
  "VerifyPiece d pieceIndex data =
     (if pieceIndex < 0 \<or> pieceIndex \<ge> int (length (disk_pieceHashes d)) then False
      else sha1_Sum data = disk_pieceHashes d ! nat pieceIndex)"

text \<open>\<open>ReadBlock\<close>; the slice expression panics when \<open>length\<close> is so negative that the end lies before \<open>begin\<close>.\<close>

definition ReadBlock ::
  "(string \<Rightarrow> string \<Rightarrow> string) \<Rightarrow> disk_Manager \<Rightarrow> int \<Rightarrow> int \<Rightarrow> int \<Rightarrow> (error + byte list) exec" where
  "ReadBlock J d pieceIndex begin len =
     (case ReadPiece J d pieceIndex of
        Panics \<Rightarrow> Panics
      | Ret (Inl e) \<Rightarrow> Ret (Inl e)
      | Ret (Inr pieceData) \<Rightarrow>
          if begin < 0 \<or> begin \<ge> int (length pieceData)
          then Ret (Inl (BlockBeginOutOfRange begin pieceIndex))
          else (let end = (if begin + len > int (length pieceData) then int (length pieceData)
                           else begin + len)
                in if end < begin then Panics
                   else Ret (Inr (take (nat end - nat begin) (drop (nat begin) pieceData)))))"

section \<open>Piece manager (\<open>internal/piece/manager.go\<close>)\<close>

record Statistics =
  Stat_TotalPieces :: int
  Stat_CompletedPieces :: int
  Stat_VerifiedPieces :: int
  Stat_ActiveRequests :: int
  Stat_BytesDownloaded :: int
  Stat_BytesVerified :: int

text \<open>
  The elements of \<open>pieces\<close> are pointers that \<open>NewManager\<close> sets once and for all, none
  of them nil; the model stores the pieces themselves. \<open>diskManager\<close> is an interface
  value, nil until \<open>SetDiskManager\<close>. The disk manager is reached through a pointer, so
  its state lives inside the manager here.
\<close>

record Manager =
  Manager_pieces :: "Piece list"
  Manager_bitfield :: "byte list"
  Manager_strategy :: "SelectionStrategy option"
  Manager_stats :: Statistics
  Manager_diskManager :: "disk_Manager option"

fun NewManager_pieces ::
  "int \<Rightarrow> int \<Rightarrow> int \<Rightarrow> byte list list \<Rightarrow> nat list \<Rightarrow> Piece list exec" where
  "NewManager_pieces numPieces pieceLength lastPieceLength pieceHashes [] = Ret []"
| "NewManager_pieces numPieces pieceLength lastPieceLength pieceHashes (i # is) =
     (let len = (if int i = numPieces - 1 \<and> lastPieceLength > 0 then lastPieceLength else pieceLength);
          hash = (if i < length pieceHashes then pieceHashes ! i else replicate 20 0)
      in case NewPiece (int i) len hash of
           Panics \<Rightarrow> Panics
         | Ret piece \<Rightarrow>
             (case NewManager_pieces numPieces pieceLength lastPieceLength pieceHashes is of
                Panics \<Rightarrow> Panics
              | Ret rest \<Rightarrow> Ret (piece # rest)))"

definition NewManager :: "int \<Rightarrow> int \<Rightarrow> int \<Rightarrow> byte list list \<Rightarrow> Manager exec" where
  "NewManager numPieces pieceLength lastPieceLength pieceHashes =
     (if numPieces < 0 then Panics
      else (case NewManager_pieces numPieces pieceLength lastPieceLength pieceHashes
                   [0..<nat numPieces] of
              Panics \<Rightarrow> Panics
            | Ret ps \<Rightarrow>
                Ret \<lparr>Manager_pieces = ps,
                     Manager_bitfield = replicate (nat (go_quot (numPieces + 7) 8)) 0,
                     Manager_strategy = Some SequentialStrategy,
                     Manager_stats =
                       \<lparr>Stat_TotalPieces = numPieces, Stat_CompletedPieces = 0,
                        Stat_VerifiedPieces = 0, Stat_ActiveRequests = 0,
                        Stat_BytesDownloaded = 0, Stat_BytesVerified = 0\<rparr>,
                     Manager_diskManager = None\<rparr>))"

definition SetDiskManager :: "Manager \<Rightarrow> disk_Manager \<Rightarrow> Manager" where
  "SetDiskManager m dm = m\<lparr>Manager_diskManager := Some dm\<rparr>"

definition SetSelectionStrategy :: "Manager \<Rightarrow> SelectionStrategy \<Rightarrow> Manager" where
  "SetSelectionStrategy m st = m\<lparr>Manager_strategy := Some st\<rparr>"

definition GetBitfield :: "Manager \<Rightarrow> byte list" where
  "GetBitfield m = Manager_bitfield m"

definition HasPiece :: "Manager \<Rightarrow> int \<Rightarrow> bool" where
  "HasPiece m index =
     (if index < 0 \<or> index \<ge> int (length (Manager_pieces m)) then False
      else Piece_State (Manager_pieces m ! nat index) = PieceStateVerified)"

text \<open>
  \<open>AddBlockData\<close> indexes \<open>m.pieces\<close> before any check, which panics out of range. The
  result carries the returned error, whether the goroutine \<open>verifyAndStorePiece\<close> was
  started, and the manager.
\<close>

definition AddBlockData ::
  "Manager \<Rightarrow> int \<Rightarrow> int \<Rightarrow> byte list \<Rightarrow> (error option \<times> bool \<times> Manager) exec" where
  "AddBlockData m pieceIndex begin data =
     (if pieceIndex < 0 \<or> pieceIndex \<ge> int (length (Manager_pieces m)) then Panics
      else
        (case SetBlockData (Manager_pieces m ! nat pieceIndex) begin data of
           (Some err, piece') \<Rightarrow> Ret (Some err, False, m)
         | (None, piece') \<Rightarrow>
             (let st = (Manager_stats m)
                         \<lparr>Stat_BytesDownloaded :=
                            Stat_BytesDownloaded (Manager_stats m) + int (length data)\<rparr>
              in if Piece_IsComplete piece' then
                   Ret (None, True,
                        m\<lparr>Manager_pieces :=
                             (Manager_pieces m)[nat pieceIndex :=
                                piece'\<lparr>Piece_State := PieceStateDownloaded\<rparr>],
                           Manager_stats := st\<rparr>)
                 else
                   Ret (None, False,
                        m\<lparr>Manager_pieces := (Manager_pieces m)[nat pieceIndex := piece'],
                           Manager_stats := st\<rparr>))))"

definition MarkPieceVerified :: "Manager \<Rightarrow> int \<Rightarrow> error option \<times> Manager" where
  "MarkPieceVerified m index =
     (if index < 0 \<or> index \<ge> int (length (Manager_pieces m))
      then (Some (PieceIndexOutOfRange index), m)
      else
        (let piece = Manager_pieces m ! nat index;
             byteIndex = nat index div 8;
             bitIndex = nat index mod 8;
             bf = Manager_bitfield m;
             bf' = (if byteIndex < length bf
                    then bf[byteIndex := (bf ! byteIndex) OR push_bit (7 - bitIndex) 1]
                    else bf);
             st = Manager_stats m
         in (None,
             m\<lparr>Manager_pieces :=
                  (Manager_pieces m)[nat index := piece\<lparr>Piece_State := PieceStateVerified\<rparr>],
                Manager_bitfield := bf',
                Manager_stats :=
                  st\<lparr>Stat_CompletedPieces := Stat_CompletedPieces st + 1,
                     Stat_VerifiedPieces := Stat_VerifiedPieces st + 1,
                     Stat_BytesVerified := Stat_BytesVerified st + Piece_Length piece\<rparr>\<rparr>)))"

definition reset_piece :: "Piece \<Rightarrow> Piece" where
  "reset_piece piece =
     piece\<lparr>Piece_State := PieceStateMissing,
           Piece_Blocks := map (\<lambda>b. b\<lparr>Block_Data := None\<rparr>) (Piece_Blocks piece)\<rparr>"

text \<open>
  \<open>verifyAndStorePiece\<close>, the body of the goroutine. \<open>reset_piece\<close> is its branch for a
  failed hash check.
\<close>

definition verifyAndStorePiece ::
  "(string \<Rightarrow> string \<Rightarrow> string) \<Rightarrow> Manager \<Rightarrow> int \<Rightarrow> Manager exec" where
  "verifyAndStorePiece J m pieceIndex =
     (if pieceIndex < 0 \<or> pieceIndex \<ge> int (length (Manager_pieces m)) then Panics
      else
        (let piece = Manager_pieces m ! nat pieceIndex
         in case Manager_diskManager m of
              None \<Rightarrow> Ret m
            | Some dm \<Rightarrow>
                (case GetData piece of
                   Inl err \<Rightarrow> Ret m
                 | Inr data \<Rightarrow>
                     if \<not> VerifyPiece dm pieceIndex data then
                       Ret (m\<lparr>Manager_pieces :=
                               (Manager_pieces m)[nat pieceIndex := reset_piece piece]\<rparr>)
                     else
                       (case WritePiece J dm pieceIndex data of
                          (Some err, dm') \<Rightarrow> Ret (m\<lparr>Manager_diskManager := Some dm'\<rparr>)
                        | (None, dm') \<Rightarrow>
                            Ret (snd (MarkPieceVerified
                                        (m\<lparr>Manager_diskManager := Some dm'\<rparr>) pieceIndex))))))"

text \<open>
  A block arrival followed by the goroutine it starts, run to its end before anything
  else happens.
\<close>

definition AddBlockData_then_verify ::
  "(string \<Rightarrow> string \<Rightarrow> string) \<Rightarrow> Manager \<Rightarrow> int \<Rightarrow> int \<Rightarrow> byte list
     \<Rightarrow> (error option \<times> Manager) exec" where
  "AddBlockData_then_verify J m pieceIndex begin data =
     (case AddBlockData m pieceIndex begin data of
        Panics \<Rightarrow> Panics
      | Ret (err, started, m') \<Rightarrow>
          if started then
            (case verifyAndStorePiece J m' pieceIndex of
               Panics \<Rightarrow> Panics
             | Ret m'' \<Rightarrow> Ret (err, m''))
          else Ret (err, m'))"

definition ReadBlockFromDisk ::
  "(string \<Rightarrow> string \<Rightarrow> string) \<Rightarrow> Manager \<Rightarrow> int \<Rightarrow> int \<Rightarrow> int \<Rightarrow> (error + byte list) exec" where
  "ReadBlockFromDisk J m pieceIndex begin len =
     (if pieceIndex < 0 \<or> pieceIndex \<ge> int (length (Manager_pieces m)) then Panics
      else
        (let piece = Manager_pieces m ! nat pieceIndex
         in if Piece_State piece \<noteq> PieceStateVerified then Ret (Inl (PieceNotVerified pieceIndex))
            else (case Manager_diskManager m of
                    None \<Rightarrow> Ret (Inl DiskManagerNotSet)
                  | Some dm \<Rightarrow> ReadBlock J dm pieceIndex begin len)))"

record BlockRequest =
  BlockRequest_Begin :: int
  BlockRequest_Length :: int

definition GetNeededPieces :: "Manager \<Rightarrow> int list" where
  "GetNeededPieces m =
     map int (filter (\<lambda>i. Piece_State (Manager_pieces m ! i) \<noteq> PieceStateVerified)
                [0..<length (Manager_pieces m)])"

definition SelectPieceForPeer :: "sort_Slice \<Rightarrow> Manager \<Rightarrow> byte list \<Rightarrow> error + int" where
  "SelectPieceForPeer srt m peerBitfield =
     (case Manager_strategy m of
        None \<Rightarrow> Inl NoSelectionStrategy
      | Some st \<Rightarrow>
          (case SelectPiece srt st (Manager_pieces m) peerBitfield of
             None \<Rightarrow> Inl NoPieceSelected
           | Some i \<Rightarrow> Inr (Piece_Index (Manager_pieces m ! i))))"

definition GetBlockRequests :: "Manager \<Rightarrow> int \<Rightarrow> BlockRequest list" where
  "GetBlockRequests m pieceIndex =
     (if pieceIndex < 0 \<or> pieceIndex \<ge> int (length (Manager_pieces m)) then []
      else map (\<lambda>b. \<lparr>BlockRequest_Begin = Block_Begin b, BlockRequest_Length = Block_Length b\<rparr>)
             (filter (\<lambda>b. Block_Data b = None) (Piece_Blocks (Manager_pieces m ! nat pieceIndex))))"

fun RequestBlock_loop :: "Block list \<Rightarrow> int \<Rightarrow> int \<Rightarrow> time \<Rightarrow> Block list" where
  "RequestBlock_loop [] begin len now = []"
| "RequestBlock_loop (b # bs) begin len now =
     (if Block_Begin b = begin \<and> Block_Length b = len
      then b\<lparr>Block_RequestedAt := Some now\<rparr> # bs
      else b # RequestBlock_loop bs begin len now)"

definition RequestBlock :: "time \<Rightarrow> Manager \<Rightarrow> int \<Rightarrow> int \<Rightarrow> int \<Rightarrow> error option \<times> Manager" where
  "RequestBlock now m pieceIndex begin len =
     (if pieceIndex < 0 \<or> pieceIndex \<ge> int (length (Manager_pieces m))
      then (Some (InvalidPieceIndex pieceIndex), m)
      else
        (let piece = Manager_pieces m ! nat pieceIndex
         in (None,
             m\<lparr>Manager_pieces :=
                  (Manager_pieces m)[nat pieceIndex :=
                     piece\<lparr>Piece_Blocks := RequestBlock_loop (Piece_Blocks piece) begin len now\<rparr>]\<rparr>)))"

section \<open>Wire messages (\<open>package peer\<close>, messages)\<close>

type_synonym u32 = "32 word"

record Message =
  Message_ID :: byte
  Message_Payload :: "byte list"

definition MsgChoke :: byte where "MsgChoke = 0"
definition MsgUnchoke :: byte where "MsgUnchoke = 1"
definition MsgInterested :: byte where "MsgInterested = 2"
definition MsgNotInterested :: byte where "MsgNotInterested = 3"
definition MsgHave :: byte where "MsgHave = 4"
definition MsgBitfield :: byte where "MsgBitfield = 5"
definition MsgRequest :: byte where "MsgRequest = 6"
definition MsgPiece :: byte where "MsgPiece = 7"
definition MsgCancel :: byte where "MsgCancel = 8"

definition PutUint32 :: "u32 \<Rightarrow> byte list" where
  "PutUint32 v = [ucast (drop_bit 24 v), ucast (drop_bit 16 v), ucast (drop_bit 8 v), ucast v]"

definition Uint32 :: "byte list \<Rightarrow> u32" where
  "Uint32 bs = foldl (\<lambda>acc b. push_bit 8 acc OR ucast b) 0 (take 4 bs)"

definition NewMessage :: "byte \<Rightarrow> byte list \<Rightarrow> Message" where
  "NewMessage i payload = \<lparr>Message_ID = i, Message_Payload = payload\<rparr>"

definition NewChokeMessage :: Message where
  "NewChokeMessage = NewMessage MsgChoke []"

definition NewUnchokeMessage :: Message where
  "NewUnchokeMessage = NewMessage MsgUnchoke []"

definition NewInterestedMessage :: Message where
  "NewInterestedMessage = NewMessage MsgInterested []"

definition NewNotInterestedMessage :: Message where
  "NewNotInterestedMessage = NewMessage MsgNotInterested []"

definition NewHaveMessage :: "u32 \<Rightarrow> Message" where
  "NewHaveMessage index = NewMessage MsgHave (PutUint32 index)"

definition NewBitfieldMessage :: "byte list \<Rightarrow> Message" where
  "NewBitfieldMessage bf = NewMessage MsgBitfield bf"

definition NewRequestMessage :: "u32 \<Rightarrow> u32 \<Rightarrow> u32 \<Rightarrow> Message" where
  "NewRequestMessage index begin len =
     NewMessage MsgRequest (PutUint32 index @ PutUint32 begin @ PutUint32 len)"

definition NewPieceMessage :: "u32 \<Rightarrow> u32 \<Rightarrow> byte list \<Rightarrow> Message" where
  "NewPieceMessage index begin block =
     NewMessage MsgPiece (PutUint32 index @ PutUint32 begin @ block)"

definition ParseHave :: "Message \<Rightarrow> error + u32" where
  "ParseHave m =
     (if Message_ID m \<noteq> MsgHave then Inl NotAHaveMessage
      else if length (Message_Payload m) \<noteq> 4
      then Inl (InvalidHavePayloadLength (length (Message_Payload m)))
      else Inr (Uint32 (Message_Payload m)))"

definition ParseBitfield :: "Message \<Rightarrow> error + byte list" where
  "ParseBitfield m =
     (if Message_ID m \<noteq> MsgBitfield then Inl NotABitfieldMessage
      else Inr (Message_Payload m))"

definition ParsePiece :: "Message \<Rightarrow> (u32 \<times> u32 \<times> byte list) option" where
  "ParsePiece m =
     (if Message_ID m \<noteq> MsgPiece then None
      else if length (Message_Payload m) < 8 then None
      else Some (Uint32 (take 4 (Message_Payload m)),
                 Uint32 (take 4 (drop 4 (Message_Payload m))),
                 drop 8 (Message_Payload m)))"

definition ParseRequest :: "Message \<Rightarrow> (u32 \<times> u32 \<times> u32) option" where
  "ParseRequest m =
     (if Message_ID m \<noteq> MsgRequest then None
      else if length (Message_Payload m) \<noteq> 12 then None
      else Some (Uint32 (take 4 (Message_Payload m)),
                 Uint32 (take 4 (drop 4 (Message_Payload m))),
                 Uint32 (take 4 (drop 8 (Message_Payload m)))))"

section \<open>Peer session (\<open>internal/peer/peer.go\<close>)\<close>

record PeerState =
  AmChoking :: bool
  AmInterested :: bool
  PeerChoking :: bool
  PeerInterested :: bool

definition NewPeerState :: PeerState where
  "NewPeerState =
     \<lparr>AmChoking = True, AmInterested = False, PeerChoking = True, PeerInterested = False\<rparr>"

text \<open>
  The remote bitfield is nil until a BITFIELD message arrives. \<open>sendCh\<close> is the queue of
  the send pipeline, of capacity 100; the send loop that drains it is not modelled, so a
  send to a full queue times out. \<open>closed\<close> says that the context of the session is
  cancelled. A piece index that reaches the session is a \<open>uint32\<close> converted to \<open>int\<close>
  or an element of the coordinator's needed pieces, never negative; it is a natural
  number here.
\<close>

record Peer =
  Peer_state :: PeerState
  Peer_bitfield :: "byte list option"
  Peer_sendCh :: "Message list"
  Peer_closed :: bool

definition NewPeer :: Peer where
  "NewPeer = \<lparr>Peer_state = NewPeerState, Peer_bitfield = None, Peer_sendCh = [], Peer_closed = False\<rparr>"

definition Peer_GetBitfield :: "Peer \<Rightarrow> byte list option" where
  "Peer_GetBitfield p = Peer_bitfield p"

definition Peer_HasPiece :: "Peer \<Rightarrow> nat \<Rightarrow> bool" where
  "Peer_HasPiece p index =
     (case Peer_bitfield p of
        None \<Rightarrow> False
      | Some bf \<Rightarrow>
          (let byteIndex = index div 8; bitIndex = index mod 8
           in if byteIndex \<ge> length bf then False
              else (bf ! byteIndex) AND push_bit (7 - bitIndex) 1 \<noteq> 0))"

definition setPieceUnsafe :: "Peer \<Rightarrow> nat \<Rightarrow> Peer" where
  "setPieceUnsafe p index =
     (case Peer_bitfield p of
        None \<Rightarrow> p
      | Some bf \<Rightarrow>
          (let byteIndex = index div 8; bitIndex = index mod 8
           in if byteIndex \<ge> length bf then p
              else p\<lparr>Peer_bitfield :=
                       Some (bf[byteIndex := (bf ! byteIndex) OR push_bit (7 - bitIndex) 1])\<rparr>))"

text \<open>\<open>handleMessage\<close>; a nil message is a keep-alive.\<close>

definition handleMessage :: "Peer \<Rightarrow> Message option \<Rightarrow> error option \<times> Peer" where
  "handleMessage p msg =
     (case msg of
        None \<Rightarrow> (None, p)
      | Some m \<Rightarrow>
          if Message_ID m = MsgChoke then (None, p\<lparr>Peer_state := (Peer_state p)\<lparr>PeerChoking := True\<rparr>\<rparr>)
          else if Message_ID m = MsgUnchoke
          then (None, p\<lparr>Peer_state := (Peer_state p)\<lparr>PeerChoking := False\<rparr>\<rparr>)
          else if Message_ID m = MsgInterested
          then (None, p\<lparr>Peer_state := (Peer_state p)\<lparr>PeerInterested := True\<rparr>\<rparr>)
          else if Message_ID m = MsgNotInterested
          then (None, p\<lparr>Peer_state := (Peer_state p)\<lparr>PeerInterested := False\<rparr>\<rparr>)
          else if Message_ID m = MsgHave then
            (case ParseHave m of
               Inl err \<Rightarrow> (Some err, p)
             | Inr index \<Rightarrow> (None, setPieceUnsafe p (unat index)))
          else if Message_ID m = MsgBitfield then
            (case ParseBitfield m of
               Inl err \<Rightarrow> (Some err, p)
             | Inr bf \<Rightarrow> (None, p\<lparr>Peer_bitfield := Some bf\<rparr>))
          else (None, p))"

definition isControlMessage :: "Message \<Rightarrow> bool" where
  "isControlMessage m =
     (Message_ID m = MsgChoke \<or> Message_ID m = MsgUnchoke \<or> Message_ID m = MsgInterested
      \<or> Message_ID m = MsgNotInterested \<or> Message_ID m = MsgHave \<or> Message_ID m = MsgBitfield)"

definition SendMessage :: "Peer \<Rightarrow> Message \<Rightarrow> error option \<times> Peer" where
  "SendMessage p msg =
     (if Peer_closed p then (Some PeerConnectionClosed, p)
      else if length (Peer_sendCh p) < 100 then (None, p\<lparr>Peer_sendCh := Peer_sendCh p @ [msg]\<rparr>)
      else (Some SendChannelFull, p))"

definition RequestPiece :: "Peer \<Rightarrow> u32 \<Rightarrow> u32 \<Rightarrow> u32 \<Rightarrow> error option \<times> Peer" where
  "RequestPiece p index begin len =
     (if PeerChoking (Peer_state p) then (Some PeerIsChokingUs, p)
      else SendMessage p (NewRequestMessage index begin len))"

definition CanDownload :: "Peer \<Rightarrow> bool" where
  "CanDownload p = (\<not> PeerChoking (Peer_state p) \<and> AmInterested (Peer_state p))"

definition CanUpload :: "Peer \<Rightarrow> bool" where
  "CanUpload p = (\<not> AmChoking (Peer_state p) \<and> PeerInterested (Peer_state p))"

definition Interested :: "Peer \<Rightarrow> error option \<times> Peer" where
  "Interested p = SendMessage (p\<lparr>Peer_state := (Peer_state p)\<lparr>AmInterested := True\<rparr>\<rparr>) NewInterestedMessage"

definition NotInterested :: "Peer \<Rightarrow> error option \<times> Peer" where
  "NotInterested p =
     SendMessage (p\<lparr>Peer_state := (Peer_state p)\<lparr>AmInterested := False\<rparr>\<rparr>) NewNotInterestedMessage"

definition NeedsPieces :: "Peer \<Rightarrow> int list \<Rightarrow> bool" where
  "NeedsPieces p neededPieces =
     (case Peer_bitfield p of
        None \<Rightarrow> False
      | Some bf \<Rightarrow> list_ex (\<lambda>pieceIndex. Peer_HasPiece p (nat pieceIndex)) neededPieces)"

definition EnsureInterested :: "Peer \<Rightarrow> int list \<Rightarrow> error option \<times> Peer" where
  "EnsureInterested p neededPieces =
     (let shouldBeInterested = NeedsPieces p neededPieces
      in if shouldBeInterested \<and> \<not> AmInterested (Peer_state p) then Interested p
         else if \<not> shouldBeInterested \<and> AmInterested (Peer_state p) then NotInterested p
         else (None, p))"

section \<open>Download coordinator (\<open>internal/download/coordinator.go\<close>)\<close>

text \<open>\<open>fmt.Sprintf("%d", n)\<close>: the decimal digits, after a minus sign for a negative number.\<close>

definition digit_char :: "nat \<Rightarrow> char" where
  "digit_char d = char_of (48 + d)"

function dec_nat :: "nat \<Rightarrow> string" where
  "dec_nat n = (if n < 10 then [digit_char n] else dec_nat (n div 10) @ [digit_char (n mod 10)])"
  by pat_completeness auto
termination
  by (relation "measure id") auto

declare dec_nat.simps [simp del]

definition itoa :: "int \<Rightarrow> string" where
  "itoa i = (if i < 0 then CHR ''-'' # dec_nat (nat (- i)) else dec_nat (nat i))"

definition requestKey :: "int \<Rightarrow> int \<Rightarrow> string" where
  "requestKey pieceIndex begin = itoa pieceIndex @ '':'' @ itoa begin"

text \<open>A \<open>*peer.Peer\<close> is compared by identity; a peer is named by a number.\<close>

record RequestInfo =
  RequestInfo_PieceIndex :: int
  RequestInfo_Begin :: int
  RequestInfo_Length :: int
  RequestInfo_RequestedAt :: time
  RequestInfo_Peer :: nat

record Coordinator =
  Coord_activeRequests :: "(string \<times> RequestInfo) list"
  Coord_maxRequestsPerPeer :: int
  Coord_requestTimeout :: int
  Coord_downloadedPieces :: int
  Coord_totalPieces :: int

definition NewCoordinator :: Coordinator where
  "NewCoordinator =
     \<lparr>Coord_activeRequests = [], Coord_maxRequestsPerPeer = 10,
      Coord_requestTimeout = 15 * 1000000000,
      Coord_downloadedPieces = 0, Coord_totalPieces = 0\<rparr>"

definition countActiveRequestsForPeer :: "Coordinator \<Rightarrow> nat \<Rightarrow> int" where
  "countActiveRequestsForPeer c targetPeer =
     int (length (filter (\<lambda>(key, req). RequestInfo_Peer req = targetPeer) (Coord_activeRequests c)))"

text \<open>
  The state of the loop over \<open>blockRequests\<close> in \<open>requestPiecesFromPeer\<close>: the request
  map, the piece manager, the peer, \<open>requestsMade\<close>, and the lines
  \<open>Requested block i:b (length l)\<close> written to the log, one per request sent.
\<close>

record request_loop =
  rl_activeRequests :: "(string \<times> RequestInfo) list"
  rl_manager :: Manager
  rl_peer :: Peer
  rl_requestsMade :: int
  rl_log :: "(int \<times> int \<times> int) list"

definition requestBlocks_body ::
  "time \<Rightarrow> nat \<Rightarrow> int \<Rightarrow> int \<Rightarrow> BlockRequest \<Rightarrow> request_loop \<Rightarrow> (request_loop, request_loop) loop_step" where
  "requestBlocks_body now pid pieceIndex requestsToMake blockReq st =
     (if rl_requestsMade st \<ge> requestsToMake then Leave st
      else
        (let key = requestKey pieceIndex (BlockRequest_Begin blockReq)
         in if map_of (rl_activeRequests st) key \<noteq> None then Next st
            else
              (case RequestPiece (rl_peer st) (of_int pieceIndex)
                      (of_int (BlockRequest_Begin blockReq)) (of_int (BlockRequest_Length blockReq)) of
                 (Some err, p') \<Rightarrow> Next (st\<lparr>rl_peer := p'\<rparr>)
               | (None, p') \<Rightarrow>
                   Next (st\<lparr>rl_activeRequests :=
                               AList.update key
                                 \<lparr>RequestInfo_PieceIndex = pieceIndex,
                                  RequestInfo_Begin = BlockRequest_Begin blockReq,
                                  RequestInfo_Length = BlockRequest_Length blockReq,
                                  RequestInfo_RequestedAt = now,
                                  RequestInfo_Peer = pid\<rparr>
                                 (rl_activeRequests st),
                            rl_manager :=
                              snd (RequestBlock now (rl_manager st) pieceIndex
                                     (BlockRequest_Begin blockReq) (BlockRequest_Length blockReq)),
                            rl_peer := p',
                            rl_requestsMade := rl_requestsMade st + 1,
                            rl_log := rl_log st @ [(pieceIndex, BlockRequest_Begin blockReq,
                                                    BlockRequest_Length blockReq)]\<rparr>))))"

fun requestBlocks_loop ::
  "time \<Rightarrow> nat \<Rightarrow> int \<Rightarrow> int \<Rightarrow> BlockRequest list \<Rightarrow> request_loop \<Rightarrow> request_loop" where
  "requestBlocks_loop now pid pieceIndex requestsToMake [] st = st"
| "requestBlocks_loop now pid pieceIndex requestsToMake (blockReq # rest) st =
     (case requestBlocks_body now pid pieceIndex requestsToMake blockReq st of
        Leave st' \<Rightarrow> st'
      | Next st' \<Rightarrow> requestBlocks_loop now pid pieceIndex requestsToMake rest st')"

definition requestPiecesFromPeer ::
  "sort_Slice \<Rightarrow> time \<Rightarrow> Coordinator \<Rightarrow> Manager \<Rightarrow> Peer \<Rightarrow> nat \<Rightarrow> int list
     \<Rightarrow> Coordinator \<times> Manager \<times> Peer \<times> (int \<times> int \<times> int) list" where
  "requestPiecesFromPeer srt now c m p pid neededPieces =
     (let activeCount = countActiveRequestsForPeer c pid
      in if activeCount \<ge> Coord_maxRequestsPerPeer c then (c, m, p, [])
         else
           (case Peer_GetBitfield p of
              None \<Rightarrow> (c, m, p, [])
            | Some bf \<Rightarrow>
                (let availablePieces =
                       filter (\<lambda>pieceIndex. Peer_HasPiece p (nat pieceIndex)) neededPieces
                 in if length availablePieces = 0 then (c, m, p, [])
                    else
                      (case SelectPieceForPeer srt m bf of
                         Inl err \<Rightarrow> (c, m, p, [])
                       | Inr pieceIndex \<Rightarrow>
                           (let st = requestBlocks_loop now pid pieceIndex
                                       (Coord_maxRequestsPerPeer c - activeCount)
                                       (GetBlockRequests m pieceIndex)
                                       \<lparr>rl_activeRequests = Coord_activeRequests c, rl_manager = m,
                                        rl_peer = p, rl_requestsMade = 0, rl_log = []\<rparr>
                            in (c\<lparr>Coord_activeRequests := rl_activeRequests st\<rparr>,
                                rl_manager st, rl_peer st, rl_log st))))))"

definition cleanupTimedOutRequests :: "time \<Rightarrow> Coordinator \<Rightarrow> Coordinator" where
  "cleanupTimedOutRequests now c =
     c\<lparr>Coord_activeRequests :=
         filter (\<lambda>(key, req). \<not> (now - RequestInfo_RequestedAt req > Coord_requestTimeout c))
           (Coord_activeRequests c)\<rparr>"

definition HandlePieceReceived :: "Coordinator \<Rightarrow> int \<Rightarrow> int \<Rightarrow> Coordinator" where
  "HandlePieceReceived c pieceIndex begin =
     (let key = requestKey pieceIndex begin
      in case map_of (Coord_activeRequests c) key of
           Some req \<Rightarrow> c\<lparr>Coord_activeRequests := AList.delete key (Coord_activeRequests c)\<rparr>
         | None \<Rightarrow> c)"

definition GetProgressCounts :: "Manager \<Rightarrow> int \<times> int" where
  "GetProgressCounts m = (count_verified (Manager_pieces m), int (length (Manager_pieces m)))"

definition updateProgress :: "Coordinator \<Rightarrow> Manager \<Rightarrow> Coordinator" where
  "updateProgress c m =
     c\<lparr>Coord_downloadedPieces := fst (GetProgressCounts m),
       Coord_totalPieces := snd (GetProgressCounts m)\<rparr>"

section \<open>The running client\<close>

text \<open>
  The peers of the peer manager (each with its identity), the piece manager, the
  coordinator, and the peer manager's own bitfield. One download cycle, one timeout sweep
  and the reception of one message are the events; a received PIECE or REQUEST is handed
  to the peer manager unless the session's receive channel is full, in which case the
  receive loop drops it (\<open>forwarded = False\<close>).
\<close>

record World =
  W_peers :: "(nat \<times> Peer) list"
  W_manager :: Manager
  W_coordinator :: Coordinator
  W_bitfield :: "byte list"

fun cycle_interest :: "(nat \<times> Peer) list \<Rightarrow> int list \<Rightarrow> (nat \<times> Peer) list" where
  "cycle_interest [] neededPieces = []"
| "cycle_interest ((pid, p) # rest) neededPieces =
     (pid, snd (EnsureInterested p neededPieces)) # cycle_interest rest neededPieces"

fun cycle_requests ::
  "sort_Slice \<Rightarrow> time \<Rightarrow> int list \<Rightarrow> (nat \<times> Peer) list \<Rightarrow> Coordinator \<Rightarrow> Manager
     \<Rightarrow> (nat \<times> Peer) list \<times> Coordinator \<times> Manager" where
  "cycle_requests srt now neededPieces [] c m = ([], c, m)"
| "cycle_requests srt now neededPieces ((pid, p) # rest) c m =
     (if CanDownload p then
        (case requestPiecesFromPeer srt now c m p pid neededPieces of
           (c', m', p', lg) \<Rightarrow>
             (case cycle_requests srt now neededPieces rest c' m' of
                (rest', c'', m'') \<Rightarrow> ((pid, p') # rest', c'', m'')))
      else
        (case cycle_requests srt now neededPieces rest c m of
           (rest', c'', m'') \<Rightarrow> ((pid, p) # rest', c'', m'')))"

definition processDownloadCycle :: "sort_Slice \<Rightarrow> time \<Rightarrow> World \<Rightarrow> World" where
  "processDownloadCycle srt now w =
     (if length (W_peers w) = 0 then w
      else
        (let neededPieces = GetNeededPieces (W_manager w)
         in if length neededPieces = 0 then w
            else
              (let needed = (if length neededPieces > 500 then take 500 neededPieces else neededPieces);
                   peers = cycle_interest (W_peers w) needed
               in case cycle_requests srt now needed peers (W_coordinator w) (W_manager w) of
                    (peers', c', m') \<Rightarrow>
                      w\<lparr>W_peers := peers', W_manager := m', W_coordinator := updateProgress c' m'\<rparr>)))"

definition handlePieceData ::
  "(string \<Rightarrow> string \<Rightarrow> string) \<Rightarrow> World \<Rightarrow> u32 \<Rightarrow> u32 \<Rightarrow> byte list \<Rightarrow> World exec" where
  "handlePieceData J w index begin block =
     (case AddBlockData_then_verify J (W_manager w) (uint index) (uint begin) block of
        Panics \<Rightarrow> Panics
      | Ret (err, m') \<Rightarrow>
          Ret (w\<lparr>W_manager := m',
                 W_coordinator := HandlePieceReceived (W_coordinator w) (uint index) (uint begin)\<rparr>))"

definition hasPieceIndex :: "byte list \<Rightarrow> nat \<Rightarrow> bool" where
  "hasPieceIndex bf index =
     (let byteIndex = index div 8; bitIndex = index mod 8
      in if byteIndex \<ge> length bf then False
         else (bf ! byteIndex) AND push_bit (7 - bitIndex) 1 \<noteq> 0)"

definition handlePieceRequest ::
  "(string \<Rightarrow> string \<Rightarrow> string) \<Rightarrow> World \<Rightarrow> nat \<Rightarrow> u32 \<Rightarrow> u32 \<Rightarrow> u32 \<Rightarrow> World exec" where
  "handlePieceRequest J w pid index begin len =
     (if \<not> hasPieceIndex (W_bitfield w) (unat index) then Ret w
      else
        (case map_of (W_peers w) pid of
           None \<Rightarrow> Ret w
         | Some p \<Rightarrow>
             if \<not> CanUpload p then Ret w
             else
               (case ReadBlockFromDisk J (W_manager w) (uint index) (uint begin) (uint len) of
                  Panics \<Rightarrow> Panics
                | Ret (Inl err) \<Rightarrow> Ret w
                | Ret (Inr blockData) \<Rightarrow>
                    Ret (w\<lparr>W_peers :=
                             AList.update pid
                               (snd (SendMessage p (NewPieceMessage index begin blockData)))
                               (W_peers w)\<rparr>))))"

definition handlePeerMessage ::
  "(string \<Rightarrow> string \<Rightarrow> string) \<Rightarrow> World \<Rightarrow> nat \<Rightarrow> Message \<Rightarrow> World exec" where
  "handlePeerMessage J w pid msg =
     (if Message_ID msg = MsgRequest then
        (case ParseRequest msg of
           None \<Rightarrow> Ret w
         | Some (index, begin, len) \<Rightarrow> handlePieceRequest J w pid index begin len)
      else if Message_ID msg = MsgPiece then
        (case ParsePiece msg of
           None \<Rightarrow> Ret w
         | Some (index, begin, block) \<Rightarrow> handlePieceData J w index begin block)
      else Ret w)"

datatype event = Cycle time | Sweep time | Recv nat "Message option" bool

definition step ::
  "sort_Slice \<Rightarrow> (string \<Rightarrow> string \<Rightarrow> string) \<Rightarrow> World \<Rightarrow> event \<Rightarrow> World exec" where
  "step srt J w e =
     (case e of
        Cycle now \<Rightarrow> Ret (processDownloadCycle srt now w)
      | Sweep now \<Rightarrow> Ret (w\<lparr>W_coordinator := cleanupTimedOutRequests now (W_coordinator w)\<rparr>)
      | Recv pid msg forwarded \<Rightarrow>
          (case map_of (W_peers w) pid of
             None \<Rightarrow> Ret w
           | Some p \<Rightarrow>
               (case handleMessage p msg of
                  (Some err, p') \<Rightarrow>
                    Ret (w\<lparr>W_peers := AList.update pid (p'\<lparr>Peer_closed := True\<rparr>) (W_peers w)\<rparr>)
                | (None, p') \<Rightarrow>
                    (let w' = w\<lparr>W_peers := AList.update pid p' (W_peers w)\<rparr>
                     in case msg of
                          None \<Rightarrow> Ret w'
                        | Some m \<Rightarrow>
                            if \<not> isControlMessage m \<and> forwarded then handlePeerMessage J w' pid m
                            else Ret w'))))"

inductive reachable :: "sort_Slice \<Rightarrow> (string \<Rightarrow> string \<Rightarrow> string) \<Rightarrow> World \<Rightarrow> bool"
  for srt :: sort_Slice and J :: "string \<Rightarrow> string \<Rightarrow> string" where
  reachable_init: "W_coordinator w = NewCoordinator \<Longrightarrow> reachable srt J w"
| reachable_step: "reachable srt J w \<Longrightarrow> step srt J w e = Ret w' \<Longrightarrow> reachable srt J w'"

section \<open>Runs and concrete scenarios\<close>

text \<open>A run feeds a list of events to the client, one after the other, and stops at a panic.\<close>

fun run ::
  "sort_Slice \<Rightarrow> (string \<Rightarrow> string \<Rightarrow> string) \<Rightarrow> World \<Rightarrow> event list \<Rightarrow> World exec" where
  "run srt J w [] = Ret w"
| "run srt J w (e # es) =
     (case step srt J w e of
        Panics \<Rightarrow> Panics
      | Ret w' \<Rightarrow> run srt J w' es)"

definition outstanding_to :: "nat \<Rightarrow> World \<Rightarrow> int" where
  "outstanding_to pid w = countActiveRequestsForPeer (W_coordinator w) pid"

definition peer_choking :: "nat \<Rightarrow> World \<Rightarrow> bool option" where
  "peer_choking pid w = map_option (\<lambda>p. PeerChoking (Peer_state p)) (map_of (W_peers w) pid)"

definition piece_state :: "nat \<Rightarrow> World \<Rightarrow> PieceState" where
  "piece_state i w = Piece_State (Manager_pieces (W_manager w) ! i)"

definition piece_payloads :: "nat \<Rightarrow> World \<Rightarrow> byte list option list" where
  "piece_payloads i w = map Block_Data (Piece_Blocks (Manager_pieces (W_manager w) ! i))"

definition exported_bitfield :: "World \<Rightarrow> byte list" where
  "exported_bitfield w = GetBitfield (W_manager w)"

definition ex_Join :: "string \<Rightarrow> string \<Rightarrow> string" where
  "ex_Join a b = a @ ''/'' @ b"

text \<open>The SHA-1 of the one-byte string \<open>a\<close>.\<close>

definition ex_hash_a :: "byte list" where
  "ex_hash_a = [0x86, 0xf7, 0xe4, 0x37, 0xfa, 0xa5, 0xa7, 0xfc, 0xe1, 0x5d,
                0x1d, 0xdc, 0xb9, 0xea, 0xea, 0xea, 0x37, 0x76, 0x67, 0xb8]"

text \<open>A torrent of one file of one byte, in one piece of one block.\<close>

definition ex_torrent :: Torrent where
  "ex_torrent =
     \<lparr>Torrent_Announce = [], Torrent_AnnounceList = [], Torrent_CreatedBy = [],
      Torrent_CreationDate = 0, Torrent_Comment = [], Torrent_InfoHash = replicate 20 0,
      Torrent_Info = \<lparr>Info_PieceLength = 1, Info_Pieces = ex_hash_a, Info_Name = ''f'',
                      Info_Length = 1, Info_Files = []\<rparr>\<rparr>"

definition ex_disk :: disk_Manager where
  "ex_disk =
     \<lparr>disk_torrent = ex_torrent, disk_downloadDir = ''d'', disk_files = [(''d/f'', [0])],
      disk_totalSize = 1, disk_pieceHashes = [ex_hash_a]\<rparr>"

definition ex_piece :: Piece where
  "ex_piece =
     \<lparr>Piece_Index = 0, Piece_Length = 1, Piece_Hash = ex_hash_a,
      Piece_State = PieceStateMissing,
      Piece_Blocks = [\<lparr>Block_Index = 0, Block_Begin = 0, Block_Length = 1,
                       Block_Data = None, Block_RequestedAt = None\<rparr>],
      Piece_Requests = []\<rparr>"

definition ex_manager :: Manager where
  "ex_manager =
     \<lparr>Manager_pieces = [ex_piece], Manager_bitfield = [0],
      Manager_strategy = Some SequentialStrategy,
      Manager_stats = \<lparr>Stat_TotalPieces = 1, Stat_CompletedPieces = 0, Stat_VerifiedPieces = 0,
                        Stat_ActiveRequests = 0, Stat_BytesDownloaded = 0, Stat_BytesVerified = 0\<rparr>,
      Manager_diskManager = Some ex_disk\<rparr>"

text \<open>Peer 7 has sent BITFIELD and UNCHOKE, and we are interested in it.\<close>

definition ex_peer :: Peer where
  "ex_peer =
     \<lparr>Peer_state = \<lparr>AmChoking = True, AmInterested = True, PeerChoking = False, PeerInterested = False\<rparr>,
      Peer_bitfield = Some [0x80], Peer_sendCh = [], Peer_closed = False\<rparr>"

definition ex_world :: World where
  "ex_world =
     \<lparr>W_peers = [(7, ex_peer)], W_manager = ex_manager, W_coordinator = NewCoordinator,
      W_bitfield = [0]\<rparr>"

text \<open>The declared length of the block that \<open>SetBlockData\<close> finds for an offset.\<close>

fun declared_length :: "Block list \<Rightarrow> int \<Rightarrow> int option" where
  "declared_length [] begin = None"
| "declared_length (b # bs) begin =
     (if Block_Begin b = begin then Some (Block_Length b) else declared_length bs begin)"

text \<open>A peer that has sent a BITFIELD of one zero byte, and nothing else.\<close>

definition ex_peer_with_bitfield :: Peer where
  "ex_peer_with_bitfield = NewPeer\<lparr>Peer_bitfield := Some [0]\<rparr>"

section \<open>Evaluation of the scenarios\<close>

lemma sha1_a: "sha1_Sum [0x61] = ex_hash_a"
  by code_simp

lemma sha1_b: "sha1_Sum [0x62] \<noteq> ex_hash_a"
  by code_simp

lemma ex_piece_is_NewPiece: "NewPiece 0 1 ex_hash_a = Ret ex_piece"
  by (simp add: NewPiece_def NewPiece_block_def go_quot_def BlockSize_def ex_piece_def)

lemma ex_disk_is_Initialize: "Initialize ex_Join (disk_NewManager ex_torrent ''d'') = (None, ex_disk)"
  by code_simp

lemma ex_manager_is_NewManager:
  "map_exec (\<lambda>m. SetDiskManager m ex_disk) (NewManager 1 1 1 [ex_hash_a]) = Ret ex_manager"
  by code_simp


section \<open>Block payloads (C8)\<close>

lemma SetBlockData_loop_ok:
  "SetBlockData_loop bs begin data = Inr bs' \<Longrightarrow>
     declared_length bs begin = Some (int (length data)) \<and> stored_payload bs' begin = Some data"
  by (induction bs arbitrary: bs') (auto split: if_splits sum.splits)

lemma SetBlockData_loop_err:
  "SetBlockData_loop bs begin data = Inl e \<Longrightarrow>
     declared_length bs begin \<noteq> Some (int (length data))"
  by (induction bs) (auto split: if_splits sum.splits)

text \<open>
  Claim C8, as stated: once a payload is stored for an offset, a later \<open>SetBlockData\<close> for
  the same offset never replaces it; a differing payload is rejected. It fails on the
  one-block piece \<open>ex_piece\<close>: after the payload \<open>[1]\<close> is stored at offset 0, the payload
  \<open>[2]\<close> is accepted for the same offset and is what the block holds afterwards.
\<close>

theorem C8_counterexample:
  "fst (SetBlockData ex_piece 0 [1]) = None
   \<and> stored_payload (Piece_Blocks (snd (SetBlockData ex_piece 0 [1]))) 0 = Some [1]
   \<and> fst (SetBlockData (snd (SetBlockData ex_piece 0 [1])) 0 [2]) = None
   \<and> stored_payload
        (Piece_Blocks (snd (SetBlockData (snd (SetBlockData ex_piece 0 [1])) 0 [2]))) 0 = Some [2]"
  by (simp add: SetBlockData_def ex_piece_def)

text \<open>
  Claim C8, amended: \<open>SetBlockData\<close> accepts a payload exactly when its length is the
  declared length of the block at that offset, whatever the block already holds; an
  accepted payload is what the block holds afterwards (the last writer wins, so a
  byte-equal second arrival leaves the bytes as they were); a rejected call changes
  nothing.
\<close>

theorem C8_last_writer_wins:
  "(fst (SetBlockData p begin data) = None
      \<longleftrightarrow> declared_length (Piece_Blocks p) begin = Some (int (length data)))
   \<and> (fst (SetBlockData p begin data) = None
      \<longrightarrow> stored_payload (Piece_Blocks (snd (SetBlockData p begin data))) begin = Some data)
   \<and> (fst (SetBlockData p begin data) \<noteq> None \<longrightarrow> snd (SetBlockData p begin data) = p)"
proof (cases "SetBlockData_loop (Piece_Blocks p) begin data")
  case (Inl e)
  then show ?thesis
    using SetBlockData_loop_err [OF Inl] by (simp add: SetBlockData_def)
next
  case (Inr bs')
  then show ?thesis
    using SetBlockData_loop_ok [OF Inr] by (simp add: SetBlockData_def)
qed

text \<open>
  Claim C8, witness of the amended statement: on \<open>ex_piece\<close> with \<open>[1]\<close> already stored at
  offset 0, the payload \<open>[2]\<close> has the declared length, is accepted and is stored.
\<close>

theorem C8_last_writer_wins_witness:
  "stored_payload (Piece_Blocks (snd (SetBlockData ex_piece 0 [1]))) 0 = Some [1]
   \<and> declared_length (Piece_Blocks (snd (SetBlockData ex_piece 0 [1]))) 0
       = Some (int (length [2::byte]))
   \<and> fst (SetBlockData (snd (SetBlockData ex_piece 0 [1])) 0 [2]) = None
   \<and> stored_payload
        (Piece_Blocks (snd (SetBlockData (snd (SetBlockData ex_piece 0 [1])) 0 [2]))) 0 = Some [2]"
  using C8_last_writer_wins [of "snd (SetBlockData ex_piece 0 [1])" 0 "[2]"]
  by (simp add: SetBlockData_def ex_piece_def)

section \<open>HAVE before BITFIELD (C9)\<close>

lemma Uint32_PutUint32: "Uint32 (PutUint32 v) = v"
  unfolding Uint32_def PutUint32_def
  apply simp
  apply (rule bit_word_eqI)
  subgoal for n
    by (cases "n < 8"; cases "n < 16"; cases "n < 24") (auto simp add: bit_simps)
  done

lemma set_bit_test:
  assumes "k < 8"
  shows "((x::byte) OR push_bit k 1) AND push_bit k 1 \<noteq> 0"
proof
  assume z: "(x OR push_bit k 1) AND push_bit k 1 = 0"
  have b: "bit ((x OR push_bit k 1) AND push_bit k 1) k"
    using assms by (auto simp add: bit_simps)
  show False using b unfolding z by simp
qed

lemma handleMessage_Have:
  "handleMessage p (Some (NewHaveMessage i)) = (None, setPieceUnsafe p (unat i))"
  by (simp add: handleMessage_def NewHaveMessage_def NewMessage_def ParseHave_def
      Uint32_PutUint32 MsgHave_def MsgChoke_def MsgUnchoke_def
      MsgInterested_def MsgNotInterested_def) (simp add: PutUint32_def)

text \<open>
  Claim C9, as stated: HAVE(i) from a peer whose remote bitfield is still nil allocates
  the bitfield and sets bit i, so that \<open>HasPiece(i)\<close> is true afterwards. It fails on a
  fresh session: after HAVE(0) the bitfield is still nil and \<open>HasPiece(0)\<close> is false.
\<close>

theorem C9_counterexample:
  "fst (handleMessage NewPeer (Some (NewHaveMessage 0))) = None
   \<and> Peer_bitfield (snd (handleMessage NewPeer (Some (NewHaveMessage 0)))) = None
   \<and> \<not> Peer_HasPiece (snd (handleMessage NewPeer (Some (NewHaveMessage 0)))) 0"
  by (simp add: handleMessage_def NewHaveMessage_def NewMessage_def ParseHave_def PutUint32_def
      setPieceUnsafe_def NewPeer_def Peer_HasPiece_def MsgHave_def MsgChoke_def MsgUnchoke_def
      MsgInterested_def MsgNotInterested_def)

text \<open>
  Claim C9, amended: HAVE(i) from a peer whose remote bitfield is still nil is ignored:
  the session is unchanged, no error is raised and \<open>HasPiece(i)\<close> stays false. When a
  bitfield is present and has a byte for index i, HAVE(i) sets bit i and \<open>HasPiece(i)\<close>
  is true afterwards.
\<close>

theorem C9_have_needs_bitfield:
  "(Peer_bitfield p = None \<longrightarrow>
      handleMessage p (Some (NewHaveMessage i)) = (None, p) \<and> \<not> Peer_HasPiece p (unat i))
   \<and> (\<forall>bf. Peer_bitfield p = Some bf \<and> unat i div 8 < length bf \<longrightarrow>
        fst (handleMessage p (Some (NewHaveMessage i))) = None
        \<and> Peer_HasPiece (snd (handleMessage p (Some (NewHaveMessage i)))) (unat i))"
  by (auto simp add: handleMessage_Have setPieceUnsafe_def Peer_HasPiece_def Let_def set_bit_test)

text \<open>
  Claim C9, witness of the amended statement: a fresh session (nil bitfield) ignores
  HAVE(0); a session that holds a one-byte bitfield has piece 0 after HAVE(0).
\<close>

theorem C9_have_needs_bitfield_witness:
  "Peer_bitfield NewPeer = None
   \<and> handleMessage NewPeer (Some (NewHaveMessage 0)) = (None, NewPeer)
   \<and> \<not> Peer_HasPiece NewPeer (unat (0::u32))
   \<and> Peer_bitfield ex_peer_with_bitfield = Some [0]
   \<and> unat (0::u32) div 8 < length [0::byte]
   \<and> Peer_HasPiece (snd (handleMessage ex_peer_with_bitfield (Some (NewHaveMessage 0)))) (unat (0::u32))"
  using C9_have_needs_bitfield [of NewPeer 0] C9_have_needs_bitfield [of ex_peer_with_bitfield 0]
  by (simp add: NewPeer_def ex_peer_with_bitfield_def)

section \<open>Piece indices out of range (C10)\<close>

lemma AddBlockData_out_of_range:
  "pieceIndex < 0 \<or> pieceIndex \<ge> int (length (Manager_pieces m)) \<Longrightarrow>
     AddBlockData m pieceIndex begin data = Panics"
  by (simp add: AddBlockData_def)

lemma ReadBlockFromDisk_out_of_range:
  "pieceIndex < 0 \<or> pieceIndex \<ge> int (length (Manager_pieces m)) \<Longrightarrow>
     ReadBlockFromDisk J m pieceIndex begin len = Panics"
  by (simp add: ReadBlockFromDisk_def)

text \<open>
  Claim C10: \<open>AddBlockData\<close> and \<open>ReadBlockFromDisk\<close> return an error for a piece index
  that is negative or not less than the number of pieces. The code indexes \<open>m.pieces\<close>
  before any check: in the store \<open>ex_manager\<close> of one piece, the indices 1 and -1 make
  both functions panic, and a PIECE message for piece 1 received from peer 7 panics the
  client.
\<close>

theorem C10_out_of_range_index_panics:
  "AddBlockData ex_manager 1 0 [0x61] = Panics
   \<and> AddBlockData ex_manager (- 1) 0 [0x61] = Panics
   \<and> ReadBlockFromDisk ex_Join ex_manager 1 0 1 = Panics
   \<and> ReadBlockFromDisk ex_Join ex_manager (- 1) 0 1 = Panics
   \<and> step insertionSort ex_Join ex_world (Recv 7 (Some (NewPieceMessage 1 0 [0x61])) True) = Panics"
  by code_simp

section \<open>Bitfield and piece state (C4)\<close>

text \<open>
  Claim C4: bit i of the exported bitfield is set if and only if piece i is Verified, at
  every moment. The code breaks it when a block arrives for a piece that is already
  Verified: in \<open>ex_world\<close>, the block \<open>a\<close> of piece 0 verifies the piece and sets byte 0
  to \<open>0x80\<close>; a second PIECE message for the same block with the payload \<open>b\<close> overwrites
  the block, the hash check fails, the piece goes back to Missing, and the bitfield
  still says \<open>0x80\<close>.
\<close>

theorem C4_bit_set_but_piece_missing:
  "map_exec (piece_state 0)
     (run insertionSort ex_Join ex_world [Recv 7 (Some (NewPieceMessage 0 0 [0x61])) True])
     = Ret PieceStateVerified
   \<and> map_exec exported_bitfield
     (run insertionSort ex_Join ex_world [Recv 7 (Some (NewPieceMessage 0 0 [0x61])) True])
     = Ret [0x80]
   \<and> map_exec (piece_state 0)
     (run insertionSort ex_Join ex_world
        [Recv 7 (Some (NewPieceMessage 0 0 [0x61])) True,
         Recv 7 (Some (NewPieceMessage 0 0 [0x62])) True])
     = Ret PieceStateMissing
   \<and> map_exec exported_bitfield
     (run insertionSort ex_Join ex_world
        [Recv 7 (Some (NewPieceMessage 0 0 [0x61])) True,
         Recv 7 (Some (NewPieceMessage 0 0 [0x62])) True])
     = Ret [0x80]"
  by code_simp

end
